theory Spec2Isabelle
  imports Complex_Main "HOL-Library.Sublist"
begin

section \<open>The generation service layer of the influencer maker\<close>

text \<open>
  A shallow embedding of \<^verbatim>\<open>src/services/geminiService.ts\<close>: credential
  resolution, payload normalisation, the error handler, the single-image generator, the
  camera description of studio mode and the story batch orchestrator.

  JavaScript strings are modelled as \<^typ>\<open>string\<close>; every literal of the source is
  ASCII. A value that may be \<^verbatim>\<open>null\<close> or \<^verbatim>\<open>undefined\<close> is an
  \<^typ>\<open>'a option\<close>. A \<^verbatim>\<open>throw\<close> is the left injection of a sum.
  Output on the console is not modelled.
\<close>

subsection \<open>Strings\<close>

text \<open>
  \<^verbatim>\<open>s.includes(n)\<close>: \<^verbatim>\<open>n\<close> occurs in \<^verbatim>\<open>s\<close> as a contiguous
  run of characters.
\<close>

fun str_includes :: "string \<Rightarrow> string \<Rightarrow> bool" where
  "str_includes [] n = (n = [])"
| "str_includes (c # cs) n = (prefix n (c # cs) \<or> str_includes cs n)"

text \<open>Matching a fixed run of characters at the head of a string; the rest is returned.\<close>

fun match_literal :: "string \<Rightarrow> string \<Rightarrow> string option" where
  "match_literal [] s = Some s"
| "match_literal (c # cs) [] = None"
| "match_literal (c # cs) (d # ds) = (if c = d then match_literal cs ds else None)"

text \<open>
  An alternation followed by the rest of a pattern: the alternatives are tried from left to
  right, and the first one after which the rest matches is taken.
\<close>

fun match_alternatives :: "string list \<Rightarrow> string \<Rightarrow> string \<Rightarrow> string option" where
  "match_alternatives [] rst s = None"
| "match_alternatives (a # as) rst s =
     (case match_literal (a @ rst) s of
        Some r \<Rightarrow> Some r
      | None \<Rightarrow> match_alternatives as rst s)"

text \<open>The truth value of a string that may be absent: absent and empty are both false.\<close>

fun truthy :: "string option \<Rightarrow> bool" where
  "truthy None = False"
| "truthy (Some s) = (s \<noteq> [])"

subsection \<open>Types of the service\<close>

datatype ModelType = standard | pro

datatype AspectRatio = R1_1 | R3_4 | R4_3 | R9_16 | R16_9

text \<open>
  A thrown value: an object with a \<^verbatim>\<open>message\<close> property, a string that may be
  missing, and the string its \<^verbatim>\<open>toString()\<close> gives. Two errors are the same object
  when they are equal as values.
\<close>

record js_error =
  message :: "string option"
  toString :: string

text \<open>\<^verbatim>\<open>new Error(m)\<close>.\<close>

definition new_Error :: "string \<Rightarrow> js_error" where
  "new_Error m =
     \<lparr>message = Some m, toString = (if m = [] then ''Error'' else ''Error: '' @ m)\<rparr>"

definition new_TypeError :: "string \<Rightarrow> js_error" where
  "new_TypeError m =
     \<lparr>message = Some m, toString = (if m = [] then ''TypeError'' else ''TypeError: '' @ m)\<rparr>"

subsection \<open>cleanBase64\<close>

text \<open>
  \<^verbatim>\<open>base64Data.replace(/^data:image\/(png|jpeg|jpg|webp);base64,/, '')\<close>: the
  pattern is anchored at the start and not global, so at most the head of the string is
  replaced, by the empty string.
\<close>

definition match_header :: "string \<Rightarrow> string option" where
  "match_header s =
     (case match_literal ''data:image/'' s of
        None \<Rightarrow> None
      | Some r \<Rightarrow> match_alternatives [''png'', ''jpeg'', ''jpg'', ''webp''] '';base64,'' r)"

definition cleanBase64 :: "string \<Rightarrow> string" where
  "cleanBase64 base64Data =
     (case match_header base64Data of None \<Rightarrow> base64Data | Some r \<Rightarrow> r)"

subsection \<open>getModelName\<close>

definition getModelName :: "ModelType \<Rightarrow> string" where
  "getModelName type = (if type = pro then ''gemini-3-pro-image-preview''
                        else ''gemini-2.5-flash-image'')"

subsection \<open>handleGeminiError\<close>

definition msg_billing :: string where
  "msg_billing = ''Access Denied (403). 'Banana Pro' requires a Google Cloud Project with Billing enabled. Please switch to 'Flash Lite' or use a paid API key.''"

definition msg_access :: string where
  "msg_access = ''Access Denied (403). Please check if your API Key is valid and has permissions for the Generative AI API.''"

definition msg_quota :: string where
  "msg_quota = ''Quota Exceeded (429). You are generating too fast. Please wait a moment.''"

text \<open>\<^verbatim>\<open>error.message || error.toString()\<close>.\<close>

definition error_text :: "js_error \<Rightarrow> string" where
  "error_text e = (if truthy (message e) then (case message e of Some m \<Rightarrow> m | None \<Rightarrow> [])
                   else toString e)"

text \<open>
  The handler's result is \<open>Inl e\<close> when it throws \<open>e\<close> and \<open>Inr ()\<close> when it
  returns. The tier is optional in the source.
\<close>

definition handleGeminiError :: "js_error \<Rightarrow> ModelType option \<Rightarrow> js_error + unit" where
  "handleGeminiError e modelType =
     (let msg = error_text e in
      if str_includes msg ''403'' \<or> str_includes msg ''PERMISSION_DENIED'' then
        (if modelType = Some pro then Inl (new_Error msg_billing)
         else Inl (new_Error msg_access))
      else if str_includes msg ''429'' then Inl (new_Error msg_quota)
      else Inl e)"

subsection \<open>The environment: credential stores and the generation service\<close>

text \<open>
  The response of \<^verbatim>\<open>generateContent\<close> as the source reads it: an optional list of
  candidates, each with an optional \<^verbatim>\<open>content\<close>, whose list \<^verbatim>\<open>parts\<close> is
  optional, each part with an optional \<^verbatim>\<open>inlineData\<close> (whose \<^verbatim>\<open>data\<close> is
  optional) and an optional \<^verbatim>\<open>text\<close>.
\<close>

record blob =
  mimeType :: "string option"
  data :: "string option"

record part =
  inlineData :: "blob option"
  part_text :: "string option"

record content =
  parts :: "part list option"

record candidate =
  content :: "content option"

record response =
  candidates :: "candidate list option"

datatype service_outcome = Rejected js_error | Responded response

text \<open>The argument of one \<^verbatim>\<open>ai.models.generateContent\<close> call of the image functions.\<close>

record request =
  req_apiKey :: string
  req_model :: string
  req_text :: string
  req_image_mime :: string
  req_image_data :: string
  req_aspectRatio :: AspectRatio

text \<open>
  The world outside the module: the value of \<^verbatim>\<open>localStorage.getItem('gemini_api_key')\<close>,
  the value of \<^verbatim>\<open>process.env.API_KEY\<close>, the requests sent to the service so far, and
  the service, which answers the \<open>n\<close>-th request it receives (counted from 0) with an
  outcome of its own choice.
\<close>

record world =
  localKey :: "string option"
  envKey :: "string option"
  sent :: "request list"
  service :: "nat \<Rightarrow> service_outcome"

definition generateContent :: "world \<Rightarrow> request \<Rightarrow> service_outcome \<times> world" where
  "generateContent w req = (service w (length (sent w)), w\<lparr>sent := sent w @ [req]\<rparr>)"

text \<open>\<^verbatim>\<open>localStorage.setItem('gemini_api_key', v)\<close>, as the key dialog of the application does.\<close>

definition setItem_gemini_api_key :: "string \<Rightarrow> world \<Rightarrow> world" where
  "setItem_gemini_api_key v w = w\<lparr>localKey := Some v\<rparr>"

subsection \<open>getAiClient\<close>

record client =
  apiKey :: string

definition msg_missing_key :: string where
  "msg_missing_key = ''API Key not found. Please click the Key icon to register your API Key.''"

definition getAiClient :: "world \<Rightarrow> js_error + client" where
  "getAiClient w =
     (case (if truthy (localKey w) then localKey w else envKey w) of
        None \<Rightarrow> Inl (new_Error msg_missing_key)
      | Some k \<Rightarrow> if k = [] then Inl (new_Error msg_missing_key) else Inr \<lparr>apiKey = k\<rparr>)"

subsection \<open>generateSingleImage\<close>

definition nl :: string where
  "nl = [CHR 0x0A]"

definition fullPrompt :: "string \<Rightarrow> string" where
  "fullPrompt p =
     nl @ ''    Generate a photorealistic influencer photo based on the reference person.'' @
     nl @ ''    '' @
     nl @ ''    CRITICAL INSTRUCTION: Preserve the facial identity, hair, and body type of the reference image exactly.'' @
     nl @ ''    '' @
     nl @ ''    SCENE DESCRIPTION: '' @ p @
     nl @ ''    '' @
     nl @ ''    STYLE: 4k, cinematic, social media aesthetic, high detail.'' @
     nl @ ''  ''"

text \<open>
  The test of the loop over the parts, \<^verbatim>\<open>part.inlineData && part.inlineData.data\<close>:
  the data of a part when both are truthy.
\<close>

definition image_data :: "part \<Rightarrow> string option" where
  "image_data p =
     (case inlineData p of
        None \<Rightarrow> None
      | Some b \<Rightarrow> (case data b of None \<Rightarrow> None | Some d \<Rightarrow> if d = [] then None else Some d))"

text \<open>
  The loop over the parts of the first candidate: the first part that passes the test is
  returned as a data URI.
\<close>

fun scan_parts :: "part list \<Rightarrow> string option" where
  "scan_parts [] = None"
| "scan_parts (p # ps) =
     (case image_data p of
        Some d \<Rightarrow> Some (''data:image/png;base64,'' @ d)
      | None \<Rightarrow> scan_parts ps)"

text \<open>
  \<^verbatim>\<open>const parts = response.candidates[0].content.parts\<close> followed by
  \<^verbatim>\<open>for (const part of parts)\<close>: both are unguarded, so reading \<^verbatim>\<open>parts\<close> of
  an absent content throws a type error, and so does iterating absent parts. The messages
  are those of V8.
\<close>

definition msg_content_undefined :: string where
  "msg_content_undefined = ''Cannot read properties of undefined (reading 'parts')''"

definition msg_parts_not_iterable :: string where
  "msg_parts_not_iterable = ''parts is not iterable''"

definition parts_of_first :: "candidate \<Rightarrow> js_error + part list" where
  "parts_of_first c =
     (case content c of
        None \<Rightarrow> Inl (new_TypeError msg_content_undefined)
      | Some ct \<Rightarrow>
          (case parts ct of
             None \<Rightarrow> Inl (new_TypeError msg_parts_not_iterable)
           | Some ps \<Rightarrow> Inr ps))"

text \<open>Lines 249 to 257: what the generator makes of a response.\<close>

definition image_of_response :: "response \<Rightarrow> js_error + string" where
  "image_of_response r =
     (case candidates r of
        None \<Rightarrow> Inl (new_Error ''No image generated'')
      | Some [] \<Rightarrow> Inl (new_Error ''No image generated'')
      | Some (c # cs) \<Rightarrow>
          (case parts_of_first c of
             Inl e \<Rightarrow> Inl e
           | Inr ps \<Rightarrow>
               (case scan_parts ps of
                  Some u \<Rightarrow> Inr u
                | None \<Rightarrow> Inl (new_Error ''No image generated''))))"

text \<open>
  The generator resolves the client, sends one request and reads the response. Whatever is
  thrown inside its \<^verbatim>\<open>try\<close> is thrown again by its \<^verbatim>\<open>catch\<close>.
\<close>

definition generateSingleImage ::
  "world \<Rightarrow> string \<Rightarrow> string \<Rightarrow> ModelType \<Rightarrow> AspectRatio \<Rightarrow> (js_error + string) \<times> world" where
  "generateSingleImage w referenceImageBase64 p modelType aspectRatio =
     (case getAiClient w of
        Inl e \<Rightarrow> (Inl e, w)
      | Inr ai \<Rightarrow>
          (case generateContent w
                  \<lparr>req_apiKey = apiKey ai,
                   req_model = getModelName modelType,
                   req_text = fullPrompt p,
                   req_image_mime = ''image/jpeg'',
                   req_image_data = cleanBase64 referenceImageBase64,
                   req_aspectRatio = aspectRatio\<rparr> of
             (Rejected e, w') \<Rightarrow> (Inl e, w')
           | (Responded r, w') \<Rightarrow> (image_of_response r, w')))"

subsection \<open>The response handling of generateReferenceImage\<close>

text \<open>
  Lines 85 to 101: the same unguarded read and scan as above, then the search for a part
  with truthy text; what is thrown, a type error too, goes through the error handler with
  the tier, and the statement after the handler throws if the handler returns.
\<close>

fun find_text :: "part list \<Rightarrow> string option" where
  "find_text [] = None"
| "find_text (p # ps) = (if truthy (part_text p) then part_text p else find_text ps)"

definition reference_image_of_response :: "response \<Rightarrow> ModelType \<Rightarrow> js_error + string" where
  "reference_image_of_response r modelType =
     (let tried =
        (case candidates r of
           None \<Rightarrow> Inl (new_Error ''No image generated.'')
         | Some [] \<Rightarrow> Inl (new_Error ''No image generated.'')
         | Some (c # cs) \<Rightarrow>
             (case parts_of_first c of
                Inl e \<Rightarrow> Inl e
              | Inr ps \<Rightarrow>
                  (case scan_parts ps of
                     Some u \<Rightarrow> Inr u
                   | None \<Rightarrow>
                       (case find_text ps of
                          Some t \<Rightarrow> Inl (new_Error (''Model refused: '' @ t))
                        | None \<Rightarrow> Inl (new_Error ''No image generated.'')))))
      in case tried of
           Inr u \<Rightarrow> Inr u
         | Inl e \<Rightarrow>
             (case handleGeminiError e (Some modelType) of
                Inl e' \<Rightarrow> Inl e'
              | Inr _ \<Rightarrow> Inl (new_Error ''Failed to generate reference image'')))"

subsection \<open>The camera description of generateStudioImage\<close>

text \<open>
  A JavaScript number is modelled as a real; the conversion of a number to text inside a
  template is the parameter \<open>numStr\<close>. Each of the four definitions below is the text one
  \<^verbatim>\<open>if\<close> chain of lines 277 to 290 appends.
\<close>

record CameraSettings =
  rotation :: real
  zoom :: real
  vertical :: real
  isWideAngle :: bool

definition rotation_phrase :: "(real \<Rightarrow> string) \<Rightarrow> CameraSettings \<Rightarrow> string" where
  "rotation_phrase numStr settings =
     (if rotation settings < - 10 then
        ''Profile view from the left ('' @ numStr \<bar>rotation settings\<bar> @ '' degrees), ''
      else if rotation settings > 10 then
        ''Profile view from the right ('' @ numStr (rotation settings) @ '' degrees), ''
      else ''Front facing view, '')"

definition vertical_phrase :: "CameraSettings \<Rightarrow> string" where
  "vertical_phrase settings =
     (if vertical settings < - 0.3 then ''Low angle shot (worm's eye view), ''
      else if vertical settings > 0.3 then ''High angle shot (bird's eye view), ''
      else ''Eye-level shot, '')"

definition zoom_phrase :: "CameraSettings \<Rightarrow> string" where
  "zoom_phrase settings =
     (if zoom settings > 7 then ''Extreme close-up on face, detailed features, ''
      else if zoom settings > 3 then ''Medium close-up (head and shoulders), ''
      else ''Full body shot, '')"

definition lens_phrase :: "CameraSettings \<Rightarrow> string" where
  "lens_phrase settings =
     (if isWideAngle settings then
        ''Shot with a wide-angle lens (16mm), slightly distorted perspective, ''
      else ''Shot with a portrait lens (85mm), '')"

definition cameraDescription :: "(real \<Rightarrow> string) \<Rightarrow> CameraSettings \<Rightarrow> string" where
  "cameraDescription numStr settings =
     (let d0 = [];
          d1 = d0 @ rotation_phrase numStr settings;
          d2 = d1 @ vertical_phrase settings;
          d3 = d2 @ zoom_phrase settings;
          d4 = d3 @ lens_phrase settings
      in d4)"

subsection \<open>generateStoryBatch\<close>

text \<open>What one unit of the batch settles to.\<close>

record unit_result =
  url :: string
  prompt :: string
  success :: bool
  error :: "js_error option"

record frame =
  frame_url :: string
  frame_prompt :: string

text \<open>
  The callback of the map, lines 324 to 330: a unit that got its image settles to a success,
  a unit whose generator threw settles to a failure that holds what was thrown.
\<close>

definition settle :: "string \<Rightarrow> js_error + string \<Rightarrow> unit_result" where
  "settle p outcome =
     (case outcome of
        Inr u \<Rightarrow> \<lparr>url = u, prompt = p, success = True, error = None\<rparr>
      | Inl e \<Rightarrow> \<lparr>url = [], prompt = p, success = False, error = Some e\<rparr>)"

text \<open>
  \<^verbatim>\<open>prompts.map(async ...)\<close> followed by \<^verbatim>\<open>Promise.all\<close>: every unit runs up to
  its request when it is mapped, so the requests leave in the order of the prompts, and the
  settled results are collected in that order whenever each unit settles.
\<close>

fun dispatch ::
  "world \<Rightarrow> string \<Rightarrow> string list \<Rightarrow> ModelType \<Rightarrow> AspectRatio \<Rightarrow> unit_result list \<times> world" where
  "dispatch w referenceImageBase64 [] modelType aspectRatio = ([], w)"
| "dispatch w referenceImageBase64 (p # ps) modelType aspectRatio =
     (case generateSingleImage w referenceImageBase64 p modelType aspectRatio of
        (outcome, w1) \<Rightarrow>
          (case dispatch w1 referenceImageBase64 ps modelType aspectRatio of
             (rs, w2) \<Rightarrow> (settle p outcome # rs, w2)))"

text \<open>
  The predicate of the search for a fatal error:
  \<^verbatim>\<open>r.error && (r.error.message?.includes("403") || r.error.message?.includes("PERMISSION_DENIED"))\<close>.
\<close>

definition is_fatal :: "unit_result \<Rightarrow> bool" where
  "is_fatal r =
     (case error r of
        None \<Rightarrow> False
      | Some e \<Rightarrow>
          (case message e of
             None \<Rightarrow> False
           | Some m \<Rightarrow> str_includes m ''403'' \<or> str_includes m ''PERMISSION_DENIED''))"

text \<open>\<^verbatim>\<open>results.filter(r => r.success && r.url).map(r => ({ url: r.url, prompt: r.prompt }))\<close>.\<close>

definition successful_frames :: "unit_result list \<Rightarrow> frame list" where
  "successful_frames results =
     map (\<lambda>r. \<lparr>frame_url = url r, frame_prompt = prompt r\<rparr>)
         (filter (\<lambda>r. success r \<and> url r \<noteq> []) results)"

text \<open>
  The orchestrator. Reading \<^verbatim>\<open>message\<close> of a \<^verbatim>\<open>null\<close> error inside the
  handler would throw a type error.
\<close>

definition generateStoryBatch ::
  "world \<Rightarrow> string \<Rightarrow> string list \<Rightarrow> ModelType \<Rightarrow> AspectRatio \<Rightarrow> (js_error + frame list) \<times> world" where
  "generateStoryBatch w referenceImageBase64 prompts modelType aspectRatio =
     (case dispatch w referenceImageBase64 prompts modelType aspectRatio of
        (results, w') \<Rightarrow>
          (case find is_fatal results of
             None \<Rightarrow> (Inr (successful_frames results), w')
           | Some fatalError \<Rightarrow>
               (case (case error fatalError of
                        None \<Rightarrow> Inl (new_TypeError
                                 ''Cannot read properties of null (reading 'message')'')
                      | Some e \<Rightarrow> handleGeminiError e (Some modelType)) of
                  Inl e' \<Rightarrow> (Inl e', w')
                | Inr _ \<Rightarrow> (Inr (successful_frames results), w'))))"

section \<open>Properties\<close>

lemma str_includes_iff: "str_includes s n \<longleftrightarrow> (\<exists>a b. s = a @ n @ b)"
proof (induction s)
  case Nil
  then show ?case by auto
next
  case (Cons c cs)
  show ?case
  proof
    assume "str_includes (c # cs) n"
    then consider "prefix n (c # cs)" | "str_includes cs n" by auto
    then show "\<exists>a b. c # cs = a @ n @ b"
    proof cases
      case 1
      then obtain b where "c # cs = n @ b" by (auto simp: prefix_def)
      then have "c # cs = [] @ n @ b" by simp
      then show ?thesis by blast
    next
      case 2
      with Cons obtain a b where "cs = a @ n @ b" by auto
      then have "c # cs = (c # a) @ n @ b" by simp
      then show ?thesis by blast
    qed
  next
    assume "\<exists>a b. c # cs = a @ n @ b"
    then obtain a b where ab: "c # cs = a @ n @ b" by blast
    show "str_includes (c # cs) n"
    proof (cases a)
      case Nil
      with ab have "prefix n (c # cs)" by (simp add: prefix_def)
      then show ?thesis by simp
    next
      case (Cons x a')
      with ab have "cs = a' @ n @ b" by simp
      with Cons.IH have "str_includes cs n" by blast
      then show ?thesis by simp
    qed
  qed
qed

lemma match_literal_iff: "match_literal p s = Some r \<longleftrightarrow> s = p @ r"
  by (induction p s rule: match_literal.induct) auto

subsection \<open>cleanBase64\<close>

lemma match_alternatives_Some:
  "match_alternatives as rst s = Some r \<Longrightarrow> \<exists>a\<in>set as. s = a @ rst @ r"
  by (induction as) (auto simp: match_literal_iff split: option.splits)

lemma match_header_Some:
  "match_header s = Some r \<Longrightarrow>
     \<exists>t\<in>{''png'', ''jpeg'', ''jpg'', ''webp''}. s = ''data:image/'' @ t @ '';base64,'' @ r"
  unfolding match_header_def
  by (auto simp: match_literal_iff split: option.splits dest!: match_alternatives_Some)

lemma match_header_listed:
  "t \<in> {''png'', ''jpeg'', ''jpg'', ''webp''} \<Longrightarrow>
     match_header (''data:image/'' @ t @ '';base64,'' @ r) = Some r"
  unfolding match_header_def
  by (auto simp: match_literal_iff split: option.splits)

text \<open>
  Claim C8, as stated: for every payload string, normalisation strips any embedded data-URI
  format-prefix header. This fails for a header the pattern does not list: a GIF data URI
  comes back as it went in.
\<close>

theorem cleanBase64_gif_header_kept:
  "cleanBase64 ''data:image/gif;base64,AAAA'' = ''data:image/gif;base64,AAAA''"
  by (simp add: cleanBase64_def match_header_def)

text \<open>
  Claim C8, amended: a payload that starts with \<^verbatim>\<open>data:image/\<close>, one of
  \<^verbatim>\<open>png\<close>, \<^verbatim>\<open>jpeg\<close>, \<^verbatim>\<open>jpg\<close>, \<^verbatim>\<open>webp\<close>, and
  \<^verbatim>\<open>;base64,\<close> is normalised to what follows that header; every other payload is
  left as it is; and \<^verbatim>\<open>data:image/png;base64,AAAA\<close> is normalised to exactly
  \<^verbatim>\<open>AAAA\<close>.
\<close>

theorem cleanBase64_strips_listed_headers:
  "(t \<in> {''png'', ''jpeg'', ''jpg'', ''webp''} \<longrightarrow>
      cleanBase64 (''data:image/'' @ t @ '';base64,'' @ r) = r) \<and>
   ((\<forall>t\<in>{''png'', ''jpeg'', ''jpg'', ''webp''}. \<forall>r.
        s \<noteq> ''data:image/'' @ t @ '';base64,'' @ r) \<longrightarrow>
      cleanBase64 s = s) \<and>
   cleanBase64 ''data:image/png;base64,AAAA'' = ''AAAA''"
proof (intro conjI impI)
  assume "t \<in> {''png'', ''jpeg'', ''jpg'', ''webp''}"
  then show "cleanBase64 (''data:image/'' @ t @ '';base64,'' @ r) = r"
    by (simp only: cleanBase64_def match_header_listed option.case)
next
  assume none: "\<forall>t\<in>{''png'', ''jpeg'', ''jpg'', ''webp''}. \<forall>r.
    s \<noteq> ''data:image/'' @ t @ '';base64,'' @ r"
  have "match_header s = None"
  proof (cases "match_header s")
    case (Some r)
    from match_header_Some [OF this] none show ?thesis by blast
  qed simp
  then show "cleanBase64 s = s" by (simp add: cleanBase64_def)
next
  have "match_header (''data:image/'' @ ''png'' @ '';base64,'' @ ''AAAA'') = Some ''AAAA''"
    by (rule match_header_listed) simp
  then show "cleanBase64 ''data:image/png;base64,AAAA'' = ''AAAA''"
    by (simp add: cleanBase64_def)
qed

theorem cleanBase64_strips_listed_headers_witness:
  "''jpeg'' \<in> {''png'', ''jpeg'', ''jpg'', ''webp''} \<and>
   cleanBase64 ''data:image/jpeg;base64,QUJD'' = ''QUJD'' \<and>
   cleanBase64 ''QUJD'' = ''QUJD''"
proof -
  have listed: "''jpeg'' \<in> {''png'', ''jpeg'', ''jpg'', ''webp''}"
    by simp
  have bare: "\<forall>t\<in>{''png'', ''jpeg'', ''jpg'', ''webp''}. \<forall>r.
    ''QUJD'' \<noteq> ''data:image/'' @ t @ '';base64,'' @ r"
    by simp
  from cleanBase64_strips_listed_headers [of "''jpeg''" "''QUJD''" "''QUJD''"] listed bare
  show ?thesis by simp
qed

subsection \<open>handleGeminiError\<close>

lemma classified_messages_distinct:
  "new_Error msg_billing \<noteq> new_Error msg_quota" "new_Error msg_access \<noteq> new_Error msg_quota"
  by (simp_all add: new_Error_def msg_billing_def msg_access_def msg_quota_def)

text \<open>
  Claim C7, as stated: a message containing a 429 indicator yields the rate-limited error.
  This fails for a message that also contains a 403 indicator: the handler throws the
  access-denied error, which is not the rate-limited one.
\<close>

theorem handleGeminiError_429_with_403:
  "str_includes (error_text (new_Error ''429 after 403'')) ''429'' \<and>
   handleGeminiError (new_Error ''429 after 403'') None = Inl (new_Error msg_access) \<and>
   new_Error msg_access \<noteq> new_Error msg_quota"
  by (simp add: handleGeminiError_def error_text_def new_Error_def msg_access_def msg_quota_def)

text \<open>
  Claim C7, amended: the handler never returns normally. On the text it inspects (the
  error's message, or its string form when the message is missing or empty): a 403 or
  \<^verbatim>\<open>PERMISSION_DENIED\<close> indicator yields the billing error for the pro tier and the
  access-denied error otherwise; a 429 indicator without a 403 or
  \<^verbatim>\<open>PERMISSION_DENIED\<close> indicator yields the rate-limited error; and an error with
  none of the indicators is thrown again as it is.
\<close>

theorem handleGeminiError_never_returns:
  "(\<exists>t. handleGeminiError e modelType = Inl t) \<and>
   (str_includes (error_text e) ''403'' \<or> str_includes (error_text e) ''PERMISSION_DENIED'' \<longrightarrow>
      handleGeminiError e modelType =
        Inl (new_Error (if modelType = Some pro then msg_billing else msg_access))) \<and>
   (\<not> str_includes (error_text e) ''403'' \<and>
    \<not> str_includes (error_text e) ''PERMISSION_DENIED'' \<and>
    str_includes (error_text e) ''429'' \<longrightarrow>
      handleGeminiError e modelType = Inl (new_Error msg_quota)) \<and>
   (\<not> str_includes (error_text e) ''403'' \<and>
    \<not> str_includes (error_text e) ''PERMISSION_DENIED'' \<and>
    \<not> str_includes (error_text e) ''429'' \<longrightarrow>
      handleGeminiError e modelType = Inl e)"
  by (simp add: handleGeminiError_def Let_def)

theorem handleGeminiError_never_returns_witness:
  "handleGeminiError (new_Error ''got status: 403 Forbidden'') (Some pro) =
     Inl (new_Error msg_billing) \<and>
   handleGeminiError (new_Error ''got status: 429 Too Many Requests'') (Some pro) =
     Inl (new_Error msg_quota) \<and>
   handleGeminiError (new_Error ''No image generated'') (Some pro) =
     Inl (new_Error ''No image generated'')"
proof -
  have a: "str_includes (error_text (new_Error ''got status: 403 Forbidden'')) ''403''"
    by (simp add: error_text_def new_Error_def)
  have b:
    "\<not> str_includes (error_text (new_Error ''got status: 429 Too Many Requests'')) ''403'' \<and>
     \<not> str_includes (error_text (new_Error ''got status: 429 Too Many Requests''))
          ''PERMISSION_DENIED'' \<and>
     str_includes (error_text (new_Error ''got status: 429 Too Many Requests'')) ''429''"
    by (simp add: error_text_def new_Error_def)
  have c:
    "\<not> str_includes (error_text (new_Error ''No image generated'')) ''403'' \<and>
     \<not> str_includes (error_text (new_Error ''No image generated'')) ''PERMISSION_DENIED'' \<and>
     \<not> str_includes (error_text (new_Error ''No image generated'')) ''429''"
    by (simp add: error_text_def new_Error_def)
  from a b c
    handleGeminiError_never_returns [of "new_Error ''got status: 403 Forbidden''" "Some pro"]
    handleGeminiError_never_returns
      [of "new_Error ''got status: 429 Too Many Requests''" "Some pro"]
    handleGeminiError_never_returns [of "new_Error ''No image generated''" "Some pro"]
  show ?thesis by simp
qed

lemma error_text_message: "message e = Some m \<Longrightarrow> m \<noteq> [] \<Longrightarrow> error_text e = m"
  by (simp add: error_text_def)

text \<open>
  Claim C10: when the message of an error contains both a 403 or
  \<^verbatim>\<open>PERMISSION_DENIED\<close> indicator and \<^verbatim>\<open>429\<close>, the handler throws the
  permission error of the tier and not the rate-limited error; the same holds of the text
  the handler inspects when the message is missing or empty.
\<close>

theorem permission_denied_before_rate_limit:
  "(message e = Some m \<and>
    (str_includes m ''403'' \<or> str_includes m ''PERMISSION_DENIED'') \<and> str_includes m ''429'' \<longrightarrow>
     handleGeminiError e modelType =
       Inl (new_Error (if modelType = Some pro then msg_billing else msg_access)) \<and>
     handleGeminiError e modelType \<noteq> Inl (new_Error msg_quota)) \<and>
   ((str_includes (error_text e) ''403'' \<or> str_includes (error_text e) ''PERMISSION_DENIED'') \<and>
    str_includes (error_text e) ''429'' \<longrightarrow>
     handleGeminiError e modelType =
       Inl (new_Error (if modelType = Some pro then msg_billing else msg_access)) \<and>
     handleGeminiError e modelType \<noteq> Inl (new_Error msg_quota))"
proof -
  have inspected:
    "(str_includes (error_text e) ''403'' \<or> str_includes (error_text e) ''PERMISSION_DENIED'') \<and>
     str_includes (error_text e) ''429'' \<longrightarrow>
       handleGeminiError e modelType =
         Inl (new_Error (if modelType = Some pro then msg_billing else msg_access)) \<and>
       handleGeminiError e modelType \<noteq> Inl (new_Error msg_quota)"
    using classified_messages_distinct by (simp add: handleGeminiError_def Let_def)
  have "error_text e = m"
    if "message e = Some m" and "str_includes m ''429''"
  proof -
    from that(2) have "m \<noteq> []" by auto
    with that(1) show ?thesis by (rule error_text_message)
  qed
  with inspected show ?thesis by blast
qed

theorem permission_denied_before_rate_limit_witness:
  "handleGeminiError (new_Error ''PERMISSION_DENIED (quota 429)'') (Some standard) =
     Inl (new_Error msg_access) \<and>
   handleGeminiError (new_Error ''PERMISSION_DENIED (quota 429)'') (Some standard) \<noteq>
     Inl (new_Error msg_quota) \<and>
   handleGeminiError \<lparr>message = None, toString = ''ApiError: 403 after 429''\<rparr> (Some pro) =
     Inl (new_Error msg_billing)"
proof -
  have a: "message (new_Error ''PERMISSION_DENIED (quota 429)'') =
             Some ''PERMISSION_DENIED (quota 429)'' \<and>
           (str_includes ''PERMISSION_DENIED (quota 429)'' ''403'' \<or>
            str_includes ''PERMISSION_DENIED (quota 429)'' ''PERMISSION_DENIED'') \<and>
           str_includes ''PERMISSION_DENIED (quota 429)'' ''429''"
    by (simp add: new_Error_def)
  have b: "(str_includes (error_text \<lparr>message = None, toString = ''ApiError: 403 after 429''\<rparr>)
              ''403'' \<or>
            str_includes (error_text \<lparr>message = None, toString = ''ApiError: 403 after 429''\<rparr>)
              ''PERMISSION_DENIED'') \<and>
           str_includes (error_text \<lparr>message = None, toString = ''ApiError: 403 after 429''\<rparr>)
              ''429''"
    by (simp add: error_text_def)
  from a permission_denied_before_rate_limit
         [of "new_Error ''PERMISSION_DENIED (quota 429)''" "''PERMISSION_DENIED (quota 429)''"
             "Some standard"]
  have "handleGeminiError (new_Error ''PERMISSION_DENIED (quota 429)'') (Some standard) =
          Inl (new_Error msg_access) \<and>
        handleGeminiError (new_Error ''PERMISSION_DENIED (quota 429)'') (Some standard) \<noteq>
          Inl (new_Error msg_quota)"
    by auto
  moreover from b permission_denied_before_rate_limit
         [of "\<lparr>message = None, toString = ''ApiError: 403 after 429''\<rparr>" "[]" "Some pro"]
  have "handleGeminiError \<lparr>message = None, toString = ''ApiError: 403 after 429''\<rparr> (Some pro) =
          Inl (new_Error msg_billing)"
    by auto
  ultimately show ?thesis by blast
qed

subsection \<open>getAiClient\<close>

lemma generateSingleImage_keeps_stores:
  "localKey (snd (generateSingleImage w ref p mt ar)) = localKey w \<and>
   envKey (snd (generateSingleImage w ref p mt ar)) = envKey w"
  by (auto simp: generateSingleImage_def generateContent_def
      split: sum.splits service_outcome.splits)

text \<open>
  Claim C6: every call resolves the credential from the stores as they are at the call: the
  registered value when it is non-empty, otherwise the value of the environment when that is
  non-empty; it throws (the missing-key error) exactly when neither is non-empty; nothing is
  kept between calls: a generation does not change what the next call resolves to, and a
  key registered after a generation is the one the next call returns.
\<close>

theorem getAiClient_resolves_afresh:
  "(localKey w = Some k \<and> k \<noteq> [] \<longrightarrow> getAiClient w = Inr \<lparr>apiKey = k\<rparr>) \<and>
   ((localKey w = None \<or> localKey w = Some []) \<and> envKey w = Some k \<and> k \<noteq> [] \<longrightarrow>
      getAiClient w = Inr \<lparr>apiKey = k\<rparr>) \<and>
   ((\<exists>e. getAiClient w = Inl e) \<longleftrightarrow>
      (localKey w = None \<or> localKey w = Some []) \<and> (envKey w = None \<or> envKey w = Some [])) \<and>
   ((localKey w = None \<or> localKey w = Some []) \<and> (envKey w = None \<or> envKey w = Some []) \<longrightarrow>
      getAiClient w = Inl (new_Error msg_missing_key)) \<and>
   (k' \<noteq> [] \<longrightarrow>
      getAiClient (setItem_gemini_api_key k' (snd (generateSingleImage w ref p mt ar))) =
        Inr \<lparr>apiKey = k'\<rparr>) \<and>
   getAiClient (snd (generateSingleImage w ref p mt ar)) = getAiClient w"
proof -
  have stores: "localKey (snd (generateSingleImage w ref p mt ar)) = localKey w"
    "envKey (snd (generateSingleImage w ref p mt ar)) = envKey w"
    using generateSingleImage_keeps_stores by simp_all
  have same: "getAiClient (snd (generateSingleImage w ref p mt ar)) = getAiClient w"
    by (simp add: getAiClient_def stores)
  have fresh: "k' \<noteq> [] \<longrightarrow>
      getAiClient (setItem_gemini_api_key k' (snd (generateSingleImage w ref p mt ar))) =
        Inr \<lparr>apiKey = k'\<rparr>"
    by (simp add: getAiClient_def setItem_gemini_api_key_def)
  have res: "(localKey w = Some k \<and> k \<noteq> [] \<longrightarrow> getAiClient w = Inr \<lparr>apiKey = k\<rparr>) \<and>
   ((localKey w = None \<or> localKey w = Some []) \<and> envKey w = Some k \<and> k \<noteq> [] \<longrightarrow>
      getAiClient w = Inr \<lparr>apiKey = k\<rparr>)"
    by (auto simp: getAiClient_def)
  have miss: "((\<exists>e. getAiClient w = Inl e) \<longleftrightarrow>
      (localKey w = None \<or> localKey w = Some []) \<and> (envKey w = None \<or> envKey w = Some []))"
    by (cases "localKey w"; cases "envKey w") (auto simp: getAiClient_def)
  have miss2: "(localKey w = None \<or> localKey w = Some []) \<and>
      (envKey w = None \<or> envKey w = Some []) \<longrightarrow>
      getAiClient w = Inl (new_Error msg_missing_key)"
    by (auto simp: getAiClient_def)
  from res miss miss2 fresh same show ?thesis by blast
qed

theorem getAiClient_resolves_afresh_witness:
  "getAiClient \<lparr>localKey = Some ''user-key'', envKey = Some ''env-key'', sent = [],
                 service = (\<lambda>n. Rejected (new_Error ''offline''))\<rparr> =
     Inr \<lparr>apiKey = ''user-key''\<rparr> \<and>
   getAiClient \<lparr>localKey = Some [], envKey = Some ''env-key'', sent = [],
                 service = (\<lambda>n. Rejected (new_Error ''offline''))\<rparr> =
     Inr \<lparr>apiKey = ''env-key''\<rparr> \<and>
   getAiClient \<lparr>localKey = None, envKey = None, sent = [],
                 service = (\<lambda>n. Rejected (new_Error ''offline''))\<rparr> =
     Inl (new_Error msg_missing_key) \<and>
   getAiClient (setItem_gemini_api_key ''new-key''
      (snd (generateSingleImage
              \<lparr>localKey = Some ''user-key'', envKey = Some ''env-key'', sent = [],
               service = (\<lambda>n. Rejected (new_Error ''offline''))\<rparr>
              [] ''a cafe'' standard R1_1))) =
     Inr \<lparr>apiKey = ''new-key''\<rparr>"
  using
    getAiClient_resolves_afresh
      [of "\<lparr>localKey = Some ''user-key'', envKey = Some ''env-key'', sent = [],
            service = (\<lambda>n. Rejected (new_Error ''offline''))\<rparr>"
          "''user-key''" "''new-key''" "[]" "''a cafe''" standard R1_1]
    getAiClient_resolves_afresh
      [of "\<lparr>localKey = Some [], envKey = Some ''env-key'', sent = [],
            service = (\<lambda>n. Rejected (new_Error ''offline''))\<rparr>"
          "''env-key''" "''new-key''" "[]" "''a cafe''" standard R1_1]
    getAiClient_resolves_afresh
      [of "\<lparr>localKey = None, envKey = None, sent = [],
            service = (\<lambda>n. Rejected (new_Error ''offline''))\<rparr>"
          "''env-key''" "''new-key''" "[]" "''a cafe''" standard R1_1]
  by simp

subsection \<open>The camera description\<close>

text \<open>
  Claim C4: a rotation of exactly \<open>-10\<close> or \<open>10\<close> gives the front-facing phrase, and the
  phrase is another one strictly beyond these values; a vertical of exactly \<open>-0.3\<close> or
  \<open>0.3\<close> gives the eye-level phrase; a zoom of exactly \<open>7\<close> gives the medium close-up
  phrase and a zoom of exactly \<open>3\<close> the full-body phrase. The description is the four
  phrases in the order rotation, vertical, zoom, lens.
\<close>

theorem camera_boundaries:
  "(rotation s = - 10 \<or> rotation s = 10 \<longrightarrow> rotation_phrase numStr s = ''Front facing view, '') \<and>
   (rotation s < - 10 \<or> 10 < rotation s \<longrightarrow> rotation_phrase numStr s \<noteq> ''Front facing view, '') \<and>
   (vertical s = - 0.3 \<or> vertical s = 0.3 \<longrightarrow> vertical_phrase s = ''Eye-level shot, '') \<and>
   (zoom s = 7 \<longrightarrow> zoom_phrase s = ''Medium close-up (head and shoulders), '') \<and>
   (zoom s = 3 \<longrightarrow> zoom_phrase s = ''Full body shot, '') \<and>
   cameraDescription numStr s =
     rotation_phrase numStr s @ vertical_phrase s @ zoom_phrase s @ lens_phrase s"
  by (auto simp: rotation_phrase_def vertical_phrase_def zoom_phrase_def cameraDescription_def
      Let_def)

theorem camera_boundaries_witness:
  "cameraDescription (\<lambda>x. ''?'')
     \<lparr>rotation = 10, zoom = 7, vertical = 0.3, isWideAngle = False\<rparr> =
     ''Front facing view, Eye-level shot, Medium close-up (head and shoulders), Shot with a portrait lens (85mm), '' \<and>
   cameraDescription (\<lambda>x. ''?'')
     \<lparr>rotation = - 10, zoom = 3, vertical = - 0.3, isWideAngle = True\<rparr> =
     ''Front facing view, Eye-level shot, Full body shot, Shot with a wide-angle lens (16mm), slightly distorted perspective, ''"
  using
    camera_boundaries
      [of "\<lparr>rotation = 10, zoom = 7, vertical = 0.3, isWideAngle = False\<rparr>" "\<lambda>x. ''?''"]
    camera_boundaries
      [of "\<lparr>rotation = - 10, zoom = 3, vertical = - 0.3, isWideAngle = True\<rparr>" "\<lambda>x. ''?''"]
  by (simp add: lens_phrase_def)

subsection \<open>generateSingleImage\<close>

lemma scan_parts_first:
  "i < length ps \<Longrightarrow> image_data (ps ! i) = Some d \<Longrightarrow> \<forall>j<i. image_data (ps ! j) = None \<Longrightarrow>
     scan_parts ps = Some (''data:image/png;base64,'' @ d)"
proof (induction ps arbitrary: i)
  case Nil
  then show ?case by simp
next
  case (Cons q qs)
  show ?case
  proof (cases i)
    case 0
    with Cons.prems show ?thesis by simp
  next
    case (Suc k)
    with Cons.prems have "image_data q = None" by auto
    moreover from Suc Cons.prems have "scan_parts qs = Some (''data:image/png;base64,'' @ d)"
      by (intro Cons.IH [of k]) auto
    ultimately show ?thesis by simp
  qed
qed

lemma scan_parts_none: "\<forall>q\<in>set ps. image_data q = None \<Longrightarrow> scan_parts ps = None"
  by (induction ps) auto

lemma scan_parts_Some: "scan_parts ps = Some u \<Longrightarrow> \<exists>d. d \<noteq> [] \<and> u = ''data:image/png;base64,'' @ d"
  by (induction ps) (auto simp: image_data_def split: option.splits if_splits)

lemma generateSingleImage_responded:
  assumes "getAiClient w = Inr ai" and "service w (length (sent w)) = Responded r"
  shows "fst (generateSingleImage w ref p mt ar) = image_of_response r"
  using assms by (simp add: generateSingleImage_def generateContent_def)

lemma image_of_response_first:
  "candidates r = Some (c # cs) \<Longrightarrow>
     image_of_response r =
       (case parts_of_first c of
          Inl e \<Rightarrow> Inl e
        | Inr ps \<Rightarrow>
            (case scan_parts ps of
               Some u \<Rightarrow> Inr u
             | None \<Rightarrow> Inl (new_Error ''No image generated'')))"
  by (simp add: image_of_response_def)

lemma scan_parts_found: "scan_parts ps = Some u \<Longrightarrow> \<exists>q\<in>set ps. image_data q \<noteq> None"
  by (induction ps) (auto split: option.splits)

text \<open>
  Claim C5: when the service answers with a response that has candidates, only the first
  candidate is read and its parts are scanned in order: the result is the data URI (media
  type PNG) of the first part that carries image data. When the first candidate carries no
  image data the generator fails, whatever the later candidates hold: with the no-image
  error when its parts are there, with a type error when its content or its parts are
  absent. So the generator succeeds only on an image part of the first candidate.
\<close>

theorem first_candidate_only:
  assumes "getAiClient w = Inr ai"
    and "service w (length (sent w)) = Responded r"
    and "candidates r = Some (c # cs)"
  shows "(\<forall>ct ps i d. content c = Some ct \<and> parts ct = Some ps \<and> i < length ps \<and>
                image_data (ps ! i) = Some d \<and> (\<forall>j<i. image_data (ps ! j) = None) \<longrightarrow>
            fst (generateSingleImage w ref p mt ar) = Inr (''data:image/png;base64,'' @ d)) \<and>
         (\<forall>ct ps. content c = Some ct \<and> parts ct = Some ps \<and>
                (\<forall>q\<in>set ps. image_data q = None) \<longrightarrow>
            fst (generateSingleImage w ref p mt ar) = Inl (new_Error ''No image generated'')) \<and>
         (content c = None \<longrightarrow>
            fst (generateSingleImage w ref p mt ar) = Inl (new_TypeError msg_content_undefined)) \<and>
         (\<forall>ct. content c = Some ct \<and> parts ct = None \<longrightarrow>
            fst (generateSingleImage w ref p mt ar) =
              Inl (new_TypeError msg_parts_not_iterable)) \<and>
         (\<forall>u. fst (generateSingleImage w ref p mt ar) = Inr u \<longrightarrow>
            (\<exists>ct ps q. content c = Some ct \<and> parts ct = Some ps \<and> q \<in> set ps \<and>
                       image_data q \<noteq> None))"
proof -
  have eq: "fst (generateSingleImage w ref p mt ar) =
       (case parts_of_first c of
          Inl e \<Rightarrow> Inl e
        | Inr ps \<Rightarrow>
            (case scan_parts ps of
               Some u \<Rightarrow> Inr u
             | None \<Rightarrow> Inl (new_Error ''No image generated'')))"
    using generateSingleImage_responded [OF assms(1,2)] image_of_response_first [OF assms(3)]
    by simp
  have found: "fst (generateSingleImage w ref p mt ar) = Inr (''data:image/png;base64,'' @ d)"
    if "content c = Some ct" "parts ct = Some ps" "i < length ps"
      "image_data (ps ! i) = Some d" "\<forall>j<i. image_data (ps ! j) = None" for ct ps i d
  proof -
    from that(3-5) have "scan_parts ps = Some (''data:image/png;base64,'' @ d)"
      by (rule scan_parts_first)
    with that(1,2) show ?thesis by (simp add: eq parts_of_first_def)
  qed
  have none: "fst (generateSingleImage w ref p mt ar) = Inl (new_Error ''No image generated'')"
    if "content c = Some ct" "parts ct = Some ps" "\<forall>q\<in>set ps. image_data q = None" for ct ps
  proof -
    from that(3) have "scan_parts ps = None" by (rule scan_parts_none)
    with that(1,2) show ?thesis by (simp add: eq parts_of_first_def)
  qed
  have no_content: "fst (generateSingleImage w ref p mt ar) =
      Inl (new_TypeError msg_content_undefined)" if "content c = None"
    using that by (simp add: eq parts_of_first_def)
  have no_parts: "fst (generateSingleImage w ref p mt ar) =
      Inl (new_TypeError msg_parts_not_iterable)"
    if "content c = Some ct" "parts ct = None" for ct
    using that by (simp add: eq parts_of_first_def)
  have only: "\<exists>ct ps q. content c = Some ct \<and> parts ct = Some ps \<and> q \<in> set ps \<and>
                       image_data q \<noteq> None"
    if "fst (generateSingleImage w ref p mt ar) = Inr u" for u
  proof -
    from that obtain ct ps where "content c = Some ct" "parts ct = Some ps"
        "scan_parts ps = Some u"
      by (auto simp: eq parts_of_first_def split: option.splits)
    with scan_parts_found [of ps u] show ?thesis by blast
  qed
  from found none no_content no_parts only show ?thesis by blast
qed

theorem first_candidate_only_witness:
  "fst (generateSingleImage
         \<lparr>localKey = Some ''user-key'', envKey = None, sent = [],
          service = (\<lambda>n. Responded \<lparr>candidates = Some
            [\<lparr>content = Some \<lparr>parts = Some
               [\<lparr>inlineData = None, part_text = Some ''Here it is''\<rparr>,
                \<lparr>inlineData = Some \<lparr>mimeType = Some ''image/png'', data = Some ''QUJD''\<rparr>,
                  part_text = None\<rparr>,
                \<lparr>inlineData = Some \<lparr>mimeType = Some ''image/png'', data = Some ''REVG''\<rparr>,
                  part_text = None\<rparr>]\<rparr>\<rparr>]\<rparr>)\<rparr>
         [] ''a cafe'' standard R1_1) = Inr ''data:image/png;base64,QUJD'' \<and>
   fst (generateSingleImage
         \<lparr>localKey = Some ''user-key'', envKey = None, sent = [],
          service = (\<lambda>n. Responded \<lparr>candidates = Some
            [\<lparr>content = Some \<lparr>parts = Some
               [\<lparr>inlineData = None, part_text = Some ''Here it is''\<rparr>]\<rparr>\<rparr>,
             \<lparr>content = Some \<lparr>parts = Some
               [\<lparr>inlineData = Some \<lparr>mimeType = Some ''image/png'', data = Some ''QUJD''\<rparr>,
                 part_text = None\<rparr>]\<rparr>\<rparr>]\<rparr>)\<rparr>
         [] ''a cafe'' standard R1_1) = Inl (new_Error ''No image generated'') \<and>
   fst (generateSingleImage
         \<lparr>localKey = Some ''user-key'', envKey = None, sent = [],
          service = (\<lambda>n. Responded \<lparr>candidates = Some
            [\<lparr>content = None\<rparr>,
             \<lparr>content = Some \<lparr>parts = Some
               [\<lparr>inlineData = Some \<lparr>mimeType = Some ''image/png'', data = Some ''QUJD''\<rparr>,
                 part_text = None\<rparr>]\<rparr>\<rparr>]\<rparr>)\<rparr>
         [] ''a cafe'' standard R1_1) = Inl (new_TypeError msg_content_undefined) \<and>
   fst (generateSingleImage
         \<lparr>localKey = Some ''user-key'', envKey = None, sent = [],
          service = (\<lambda>n. Responded \<lparr>candidates = Some
            [\<lparr>content = Some \<lparr>parts = None\<rparr>\<rparr>,
             \<lparr>content = Some \<lparr>parts = Some
               [\<lparr>inlineData = Some \<lparr>mimeType = Some ''image/png'', data = Some ''QUJD''\<rparr>,
                 part_text = None\<rparr>]\<rparr>\<rparr>]\<rparr>)\<rparr>
         [] ''a cafe'' standard R1_1) = Inl (new_TypeError msg_parts_not_iterable)"
proof -
  let ?t = "\<lparr>inlineData = None, part_text = Some ''Here it is''\<rparr>"
  let ?a = "\<lparr>inlineData = Some \<lparr>mimeType = Some ''image/png'', data = Some ''QUJD''\<rparr>,
             part_text = None\<rparr>"
  let ?b = "\<lparr>inlineData = Some \<lparr>mimeType = Some ''image/png'', data = Some ''REVG''\<rparr>,
             part_text = None\<rparr>"
  let ?ca = "\<lparr>content = Some \<lparr>parts = Some [?a]\<rparr>\<rparr>"
  let ?c1 = "\<lparr>content = Some \<lparr>parts = Some [?t, ?a, ?b]\<rparr>\<rparr>"
  let ?c2 = "\<lparr>content = Some \<lparr>parts = Some [?t]\<rparr>\<rparr>"
  let ?c3 = "\<lparr>content = None\<rparr>"
  let ?c4 = "\<lparr>content = Some \<lparr>parts = None\<rparr>\<rparr>"
  let ?r1 = "\<lparr>candidates = Some [?c1]\<rparr>"
  let ?r2 = "\<lparr>candidates = Some [?c2, ?ca]\<rparr>"
  let ?r3 = "\<lparr>candidates = Some [?c3, ?ca]\<rparr>"
  let ?r4 = "\<lparr>candidates = Some [?c4, ?ca]\<rparr>"
  let ?w1 = "\<lparr>localKey = Some ''user-key'', envKey = None, sent = [],
              service = (\<lambda>n. Responded ?r1)\<rparr>"
  let ?w2 = "\<lparr>localKey = Some ''user-key'', envKey = None, sent = [],
              service = (\<lambda>n. Responded ?r2)\<rparr>"
  let ?w3 = "\<lparr>localKey = Some ''user-key'', envKey = None, sent = [],
              service = (\<lambda>n. Responded ?r3)\<rparr>"
  let ?w4 = "\<lparr>localKey = Some ''user-key'', envKey = None, sent = [],
              service = (\<lambda>n. Responded ?r4)\<rparr>"
  have k1: "getAiClient ?w1 = Inr \<lparr>apiKey = ''user-key''\<rparr>" by (simp add: getAiClient_def)
  have k2: "getAiClient ?w2 = Inr \<lparr>apiKey = ''user-key''\<rparr>" by (simp add: getAiClient_def)
  have k3: "getAiClient ?w3 = Inr \<lparr>apiKey = ''user-key''\<rparr>" by (simp add: getAiClient_def)
  have k4: "getAiClient ?w4 = Inr \<lparr>apiKey = ''user-key''\<rparr>" by (simp add: getAiClient_def)
  have s1: "service ?w1 (length (sent ?w1)) = Responded ?r1" by simp
  have s2: "service ?w2 (length (sent ?w2)) = Responded ?r2" by simp
  have s3: "service ?w3 (length (sent ?w3)) = Responded ?r3" by simp
  have s4: "service ?w4 (length (sent ?w4)) = Responded ?r4" by simp
  have c1: "candidates ?r1 = Some (?c1 # [])" by simp
  have c2: "candidates ?r2 = Some (?c2 # [?ca])" by simp
  have c3: "candidates ?r3 = Some (?c3 # [?ca])" by simp
  have c4: "candidates ?r4 = Some (?c4 # [?ca])" by simp
  have h1: "content ?c1 = Some \<lparr>parts = Some [?t, ?a, ?b]\<rparr> \<and>
            parts \<lparr>parts = Some [?t, ?a, ?b]\<rparr> = Some [?t, ?a, ?b] \<and>
            (1::nat) < length [?t, ?a, ?b] \<and>
            image_data ([?t, ?a, ?b] ! 1) = Some ''QUJD'' \<and>
            (\<forall>j<1. image_data ([?t, ?a, ?b] ! j) = None)"
    by (simp add: image_data_def)
  have h2: "content ?c2 = Some \<lparr>parts = Some [?t]\<rparr> \<and>
            parts \<lparr>parts = Some [?t]\<rparr> = Some [?t] \<and>
            (\<forall>q\<in>set [?t]. image_data q = None)"
    by (simp add: image_data_def)
  have h3: "content ?c3 = None" by simp
  have h4: "content ?c4 = Some \<lparr>parts = None\<rparr> \<and> parts \<lparr>parts = None\<rparr> = None" by simp
  note t1 = first_candidate_only [OF k1 s1 c1, of "[]" "''a cafe''" standard R1_1]
  note t2 = first_candidate_only [OF k2 s2 c2, of "[]" "''a cafe''" standard R1_1]
  note t3 = first_candidate_only [OF k3 s3 c3, of "[]" "''a cafe''" standard R1_1]
  note t4 = first_candidate_only [OF k4 s4 c4, of "[]" "''a cafe''" standard R1_1]
  have g1: "fst (generateSingleImage ?w1 [] ''a cafe'' standard R1_1) =
              Inr (''data:image/png;base64,'' @ ''QUJD'')"
    by (rule t1 [THEN conjunct1, rule_format, OF h1])
  have g2: "fst (generateSingleImage ?w2 [] ''a cafe'' standard R1_1) =
              Inl (new_Error ''No image generated'')"
    by (rule t2 [THEN conjunct2, THEN conjunct1, rule_format, OF h2])
  have g3: "fst (generateSingleImage ?w3 [] ''a cafe'' standard R1_1) =
              Inl (new_TypeError msg_content_undefined)"
    by (rule t3 [THEN conjunct2, THEN conjunct2, THEN conjunct1, rule_format, OF h3])
  have g4: "fst (generateSingleImage ?w4 [] ''a cafe'' standard R1_1) =
              Inl (new_TypeError msg_parts_not_iterable)"
    by (rule t4 [THEN conjunct2, THEN conjunct2, THEN conjunct2, THEN conjunct1,
                 rule_format, OF h4])
  from g1 g2 g3 g4 show ?thesis by simp
qed

lemma image_of_response_empty:
  "candidates r = None \<or> candidates r = Some [] \<or>
   (\<exists>c cs ct. candidates r = Some (c # cs) \<and> content c = Some ct \<and> parts ct = Some []) \<Longrightarrow>
     image_of_response r = Inl (new_Error ''No image generated'')"
  by (auto simp: image_of_response_def parts_of_first_def)

lemma image_of_response_absent:
  "candidates r = Some (c # cs) \<Longrightarrow>
     content c = None \<or> (\<exists>ct. content c = Some ct \<and> parts ct = None) \<Longrightarrow>
     \<exists>m. image_of_response r = Inl (new_TypeError m)"
  by (auto simp: image_of_response_def parts_of_first_def)

text \<open>
  Claim C2 says that a response whose first candidate has a text part and no image part makes
  the generator fail with a refusal error that carries the text. The generator fails with
  the no-image error there and the text is lost, while the response handling of
  generateReferenceImage throws the refusal error on the same response.
\<close>

theorem generateSingleImage_refusal_text_lost:
  "fst (generateSingleImage
         \<lparr>localKey = Some ''user-key'', envKey = None, sent = [],
          service = (\<lambda>n. Responded \<lparr>candidates = Some
            [\<lparr>content = Some \<lparr>parts = Some [\<lparr>inlineData = None, part_text = Some ''I cannot create this image.''\<rparr>]\<rparr>\<rparr>]\<rparr>)\<rparr>
         [] ''a cafe'' standard R1_1) = Inl (new_Error ''No image generated'') \<and>
   reference_image_of_response
     \<lparr>candidates = Some
        [\<lparr>content = Some \<lparr>parts = Some [\<lparr>inlineData = None, part_text = Some ''I cannot create this image.''\<rparr>]\<rparr>\<rparr>]\<rparr>
     standard = Inl (new_Error ''Model refused: I cannot create this image.'')"
  by (simp add: generateSingleImage_def getAiClient_def generateContent_def image_of_response_def
      parts_of_first_def image_data_def reference_image_of_response_def handleGeminiError_def
      error_text_def new_Error_def Let_def)

subsection \<open>generateStoryBatch\<close>

lemma generateSingleImage_nonempty:
  "generateSingleImage w ref p mt ar = (Inr u, w1) \<Longrightarrow> u \<noteq> []"
  by (auto simp: generateSingleImage_def generateContent_def image_of_response_def
      parts_of_first_def
      split: sum.splits service_outcome.splits option.splits list.splits
      dest!: scan_parts_Some)

lemma settle_shape:
  "prompt (settle p outcome) = p \<and>
   (success (settle p outcome) \<longleftrightarrow> (\<exists>u. outcome = Inr u)) \<and>
   (error (settle p outcome) = None \<longleftrightarrow> (\<exists>u. outcome = Inr u))"
  by (cases outcome) (simp_all add: settle_def)

lemma dispatch_prompts:
  "dispatch w ref ps mt ar = (results, w') \<Longrightarrow> map prompt results = ps"
proof (induction ps arbitrary: w results)
  case Nil
  then show ?case by simp
next
  case (Cons p ps)
  then show ?case
    by (auto simp: settle_shape split: prod.splits)
qed

lemma dispatch_success_url:
  "dispatch w ref ps mt ar = (results, w') \<Longrightarrow> r \<in> set results \<Longrightarrow> success r \<Longrightarrow> url r \<noteq> []"
proof (induction ps arbitrary: w results)
  case Nil
  then show ?case by simp
next
  case (Cons p ps)
  obtain outcome w1 where g: "generateSingleImage w ref p mt ar = (outcome, w1)"
    by (cases "generateSingleImage w ref p mt ar")
  obtain rs w2 where dd: "dispatch w1 ref ps mt ar = (rs, w2)"
    by (cases "dispatch w1 ref ps mt ar")
  from Cons.prems(1) g dd have res: "results = settle p outcome # rs" and "w2 = w'"
    by simp_all
  with dd have dd': "dispatch w1 ref ps mt ar = (rs, w')" by simp
  from res Cons.prems(2) consider "r = settle p outcome" | "r \<in> set rs" by auto
  then show ?case
  proof cases
    case 1
    with Cons.prems(3) obtain u where "outcome = Inr u" using settle_shape by blast
    with g 1 show ?thesis by (auto simp: settle_def dest: generateSingleImage_nonempty)
  next
    case 2
    with Cons.IH [OF dd'] Cons.prems(3) show ?thesis by blast
  qed
qed

lemma successful_frames_filter:
  assumes "dispatch w ref ps mt ar = (results, w')"
  shows "successful_frames results =
           map (\<lambda>r. \<lparr>frame_url = url r, frame_prompt = prompt r\<rparr>) (filter success results)"
proof -
  have "filter (\<lambda>r. success r \<and> url r \<noteq> []) results = filter success results"
    using dispatch_success_url [OF assms] by (intro filter_cong) auto
  then show ?thesis by (simp add: successful_frames_def)
qed

lemma fatal_text:
  assumes "message e = Some m" and "str_includes m ''403'' \<or> str_includes m ''PERMISSION_DENIED''"
  shows "handleGeminiError e (Some mt) =
           Inl (new_Error (if mt = pro then msg_billing else msg_access))"
proof -
  from assms(2) have "m \<noteq> []" by auto
  with assms(1) have "error_text e = m" by (simp add: error_text_def)
  with assms(2) show ?thesis by (simp add: handleGeminiError_def Let_def)
qed

lemma is_fatal_iff:
  "is_fatal r \<longleftrightarrow> (\<exists>e m. error r = Some e \<and> message e = Some m \<and>
      (str_includes m ''403'' \<or> str_includes m ''PERMISSION_DENIED''))"
  by (auto simp: is_fatal_def split: option.splits)

lemma dispatch_without_client:
  "getAiClient w = Inl e \<Longrightarrow> dispatch w ref ps mt ar = (map (\<lambda>p. settle p (Inl e)) ps, w)"
  by (induction ps) (simp_all add: generateSingleImage_def)

lemma dispatch_with_client:
  "getAiClient w = Inr ai \<Longrightarrow>
     fst (dispatch w ref ps mt ar) =
       map (\<lambda>i. settle (ps ! i)
                  (case service w (length (sent w) + i) of
                     Rejected e \<Rightarrow> Inl e
                   | Responded r \<Rightarrow> image_of_response r))
           [0..<length ps] \<and>
     length (sent (snd (dispatch w ref ps mt ar))) = length (sent w) + length ps"
proof (induction ps arbitrary: w)
  case Nil
  then show ?case by simp
next
  case (Cons p ps)
  obtain outcome w1 where g: "generateSingleImage w ref p mt ar = (outcome, w1)"
    by (cases "generateSingleImage w ref p mt ar")
  from g Cons.prems have o: "outcome = (case service w (length (sent w)) of
                     Rejected e \<Rightarrow> Inl e
                   | Responded r \<Rightarrow> image_of_response r)"
    and w1: "service w1 = service w" "length (sent w1) = Suc (length (sent w))"
      "getAiClient w1 = Inr ai"
    by (auto simp: generateSingleImage_def generateContent_def getAiClient_def
        split: service_outcome.splits)
  from Cons.IH [OF w1(3)] w1(1,2) g show ?case
    by (auto simp: o map_upt_Suc split: prod.splits simp del: upt_Suc)
qed

text \<open>
  Claim C9: with an empty list of prompts the orchestrator resolves to the empty list, does
  not throw, and leaves the world as it was: no request is sent.
\<close>

theorem empty_batch:
  "generateStoryBatch w ref [] mt ar = (Inr [], w) \<and>
   sent (snd (generateStoryBatch w ref [] mt ar)) = sent w"
  by (simp add: generateStoryBatch_def successful_frames_def)

text \<open>
  Claim C1: when the settled results of a batch hold at least one failure whose message
  contains \<^verbatim>\<open>403\<close> or \<^verbatim>\<open>PERMISSION_DENIED\<close>, the call throws the billing
  error for the pro tier and the access-denied error for the other tier, whatever the other
  units settled to; the error given to the handler is that of the first such result in the
  order of dispatch.
\<close>

theorem fatal_failure_aborts_batch:
  assumes d: "dispatch w ref ps mt ar = (results, w')"
    and f: "\<exists>r\<in>set results. \<exists>e m. error r = Some e \<and> message e = Some m \<and>
              (str_includes m ''403'' \<or> str_includes m ''PERMISSION_DENIED'')"
  shows "\<exists>i e. i < length results \<and> error (results ! i) = Some e \<and> is_fatal (results ! i) \<and>
               (\<forall>j<i. \<not> is_fatal (results ! j)) \<and>
               handleGeminiError e (Some mt) =
                 Inl (new_Error (if mt = pro then msg_billing else msg_access)) \<and>
               generateStoryBatch w ref ps mt ar =
                 (Inl (new_Error (if mt = pro then msg_billing else msg_access)), w')"
proof -
  from f have "\<exists>r. r \<in> set results \<and> is_fatal r" unfolding is_fatal_iff by blast
  then have "find is_fatal results \<noteq> None" by (simp add: find_None_iff)
  then obtain x where fx: "find is_fatal results = Some x" by auto
  then obtain i where i: "i < length results" "is_fatal (results ! i)" "x = results ! i"
      "\<forall>j<i. \<not> is_fatal (results ! j)"
    unfolding find_Some_iff by blast
  from i(2) obtain e m where e: "error (results ! i) = Some e" "message e = Some m"
      "str_includes m ''403'' \<or> str_includes m ''PERMISSION_DENIED''"
    unfolding is_fatal_iff by blast
  have h: "handleGeminiError e (Some mt) =
             Inl (new_Error (if mt = pro then msg_billing else msg_access))"
    using e(2,3) by (rule fatal_text)
  have "generateStoryBatch w ref ps mt ar =
          (Inl (new_Error (if mt = pro then msg_billing else msg_access)), w')"
    using d fx i(3) e(1) h by (simp add: generateStoryBatch_def)
  with i e(1) h show ?thesis by blast
qed

theorem fatal_failure_aborts_batch_witness:
  "fst (generateStoryBatch
         \<lparr>localKey = Some ''user-key'', envKey = None, sent = [],
          service = (\<lambda>n. if n = Suc 0
             then Rejected (new_Error ''got status: 403 PERMISSION_DENIED'')
             else Responded \<lparr>candidates = Some [\<lparr>content = Some \<lparr>parts = Some
               [\<lparr>inlineData = Some \<lparr>mimeType = Some ''image/png'', data = Some ''QUJD''\<rparr>,
                 part_text = None\<rparr>]\<rparr>\<rparr>]\<rparr>)\<rparr>
         [] [''a cafe'', ''a beach'', ''a gym''] pro R1_1) = Inl (new_Error msg_billing)"
proof -
  let ?w = "\<lparr>localKey = Some ''user-key'', envKey = None, sent = [],
          service = (\<lambda>n. if n = Suc 0
             then Rejected (new_Error ''got status: 403 PERMISSION_DENIED'')
             else Responded \<lparr>candidates = Some [\<lparr>content = Some \<lparr>parts = Some
               [\<lparr>inlineData = Some \<lparr>mimeType = Some ''image/png'', data = Some ''QUJD''\<rparr>,
                 part_text = None\<rparr>]\<rparr>\<rparr>]\<rparr>)\<rparr>"
  let ?ps = "[''a cafe'', ''a beach'', ''a gym'']"
  obtain results w' where d: "dispatch ?w [] ?ps pro R1_1 = (results, w')"
    by (cases "dispatch ?w [] ?ps pro R1_1")
  have k: "getAiClient ?w = Inr \<lparr>apiKey = ''user-key''\<rparr>" by (simp add: getAiClient_def)
  from dispatch_with_client [OF k, of "[]" ?ps pro R1_1] d
  have r1: "results ! 1 =
      settle ''a beach'' (Inl (new_Error ''got status: 403 PERMISSION_DENIED''))"
    and len: "length results = 3"
    by (simp_all add: upt_rec)
  from len have "results ! 1 \<in> set results" by (intro nth_mem) simp
  moreover from r1 have
    "error (results ! 1) = Some (new_Error ''got status: 403 PERMISSION_DENIED'')"
    by (simp add: settle_def)
  moreover have "message (new_Error ''got status: 403 PERMISSION_DENIED'') =
      Some ''got status: 403 PERMISSION_DENIED'' \<and>
    str_includes ''got status: 403 PERMISSION_DENIED'' ''403''"
    by (simp add: new_Error_def)
  ultimately have f: "\<exists>r\<in>set results. \<exists>e m. error r = Some e \<and> message e = Some m \<and>
              (str_includes m ''403'' \<or> str_includes m ''PERMISSION_DENIED'')"
    by blast
  from fatal_failure_aborts_batch [OF d f] show ?thesis by auto
qed

text \<open>
  Claim C3: when no settled result of a batch holds a failure whose message contains
  \<^verbatim>\<open>403\<close> or \<^verbatim>\<open>PERMISSION_DENIED\<close>, the call does not throw and returns the
  frames of exactly the successful units, in the order of dispatch, each with the prompt of
  its unit; the units are in the order of the prompts; and when every unit succeeds the
  returned list is as long as the list of prompts and carries the prompts in their order.
\<close>

theorem batch_returns_successes_in_order:
  assumes d: "dispatch w ref ps mt ar = (results, w')"
    and nf: "\<forall>r\<in>set results. \<forall>e m. error r = Some e \<and> message e = Some m \<longrightarrow>
               \<not> str_includes m ''403'' \<and> \<not> str_includes m ''PERMISSION_DENIED''"
  shows "generateStoryBatch w ref ps mt ar =
           (Inr (map (\<lambda>r. \<lparr>frame_url = url r, frame_prompt = prompt r\<rparr>)
                     (filter success results)), w') \<and>
         map prompt results = ps \<and>
         ((\<forall>r\<in>set results. success r) \<longrightarrow>
            (\<exists>out. generateStoryBatch w ref ps mt ar = (Inr out, w') \<and>
                   length out = length ps \<and> map frame_prompt out = ps \<and>
                   map frame_url out = map url results))"
proof -
  from nf have "\<not> (\<exists>r. r \<in> set results \<and> is_fatal r)" unfolding is_fatal_iff by blast
  then have none: "find is_fatal results = None" by (simp add: find_None_iff)
  have pr: "map prompt results = ps" using d by (rule dispatch_prompts)
  have run: "generateStoryBatch w ref ps mt ar =
           (Inr (map (\<lambda>r. \<lparr>frame_url = url r, frame_prompt = prompt r\<rparr>)
                     (filter success results)), w')"
    using d none by (simp add: generateStoryBatch_def successful_frames_filter [OF d])
  have all: "(\<forall>r\<in>set results. success r) \<longrightarrow>
            (\<exists>out. generateStoryBatch w ref ps mt ar = (Inr out, w') \<and>
                   length out = length ps \<and> map frame_prompt out = ps \<and>
                   map frame_url out = map url results)"
  proof
    assume "\<forall>r\<in>set results. success r"
    then have "filter success results = results" by simp
    with run have "generateStoryBatch w ref ps mt ar =
           (Inr (map (\<lambda>r. \<lparr>frame_url = url r, frame_prompt = prompt r\<rparr>) results), w')"
      by simp
    moreover have "length (map (\<lambda>r. \<lparr>frame_url = url r, frame_prompt = prompt r\<rparr>) results) = length ps"
      using pr by (metis length_map)
    moreover have "map frame_prompt (map (\<lambda>r. \<lparr>frame_url = url r, frame_prompt = prompt r\<rparr>) results) = ps"
      using pr by (simp add: comp_def)
    moreover have "map frame_url (map (\<lambda>r. \<lparr>frame_url = url r, frame_prompt = prompt r\<rparr>) results) = map url results"
      by (simp add: comp_def)
    ultimately show "\<exists>out. generateStoryBatch w ref ps mt ar = (Inr out, w') \<and>
                   length out = length ps \<and> map frame_prompt out = ps \<and>
                   map frame_url out = map url results"
      by blast
  qed
  from run pr all show ?thesis by blast
qed

theorem batch_returns_successes_in_order_witness:
  "fst (generateStoryBatch
         \<lparr>localKey = Some ''user-key'', envKey = None, sent = [],
          service = (\<lambda>n. if n = Suc 0
             then Responded \<lparr>candidates = Some [\<lparr>content = Some \<lparr>parts = Some
               [\<lparr>inlineData = None, part_text = Some ''I cannot create this image.''\<rparr>]\<rparr>\<rparr>]\<rparr>
             else Responded \<lparr>candidates = Some [\<lparr>content = Some \<lparr>parts = Some
               [\<lparr>inlineData = Some \<lparr>mimeType = Some ''image/png'', data = Some ''QUJD''\<rparr>,
                 part_text = None\<rparr>]\<rparr>\<rparr>]\<rparr>)\<rparr>
         [] [''a cafe'', ''a beach'', ''a gym''] standard R1_1) =
     Inr [\<lparr>frame_url = ''data:image/png;base64,QUJD'', frame_prompt = ''a cafe''\<rparr>,
          \<lparr>frame_url = ''data:image/png;base64,QUJD'', frame_prompt = ''a gym''\<rparr>] \<and>
   fst (generateStoryBatch
         \<lparr>localKey = Some ''user-key'', envKey = None, sent = [],
          service = (\<lambda>n. Responded \<lparr>candidates = Some [\<lparr>content = Some \<lparr>parts = Some
               [\<lparr>inlineData = Some \<lparr>mimeType = Some ''image/png'', data = Some ''QUJD''\<rparr>,
                 part_text = None\<rparr>]\<rparr>\<rparr>]\<rparr>)\<rparr>
         [] [''a cafe'', ''a beach''] standard R1_1) =
     Inr [\<lparr>frame_url = ''data:image/png;base64,QUJD'', frame_prompt = ''a cafe''\<rparr>,
          \<lparr>frame_url = ''data:image/png;base64,QUJD'', frame_prompt = ''a beach''\<rparr>]"
proof -
  let ?img = "\<lparr>candidates = Some [\<lparr>content = Some \<lparr>parts = Some
               [\<lparr>inlineData = Some \<lparr>mimeType = Some ''image/png'', data = Some ''QUJD''\<rparr>,
                 part_text = None\<rparr>]\<rparr>\<rparr>]\<rparr>"
  let ?txt = "\<lparr>candidates = Some [\<lparr>content = Some \<lparr>parts = Some
               [\<lparr>inlineData = None, part_text = Some ''I cannot create this image.''\<rparr>]\<rparr>\<rparr>]\<rparr>"
  let ?wa = "\<lparr>localKey = Some ''user-key'', envKey = None, sent = [],
          service = (\<lambda>n. if n = Suc 0 then Responded ?txt else Responded ?img)\<rparr>"
  let ?wb = "\<lparr>localKey = Some ''user-key'', envKey = None, sent = [],
          service = (\<lambda>n. Responded ?img)\<rparr>"
  let ?pa = "[''a cafe'', ''a beach'', ''a gym'']"
  let ?pb = "[''a cafe'', ''a beach'']"
  have i: "image_of_response ?img = Inr ''data:image/png;base64,QUJD''"
    by (simp add: image_of_response_def parts_of_first_def image_data_def)
  have t: "image_of_response ?txt = Inl (new_Error ''No image generated'')"
    by (simp add: image_of_response_def parts_of_first_def image_data_def)
  obtain ra wa' where da: "dispatch ?wa [] ?pa standard R1_1 = (ra, wa')"
    by (cases "dispatch ?wa [] ?pa standard R1_1")
  obtain rb wb' where db: "dispatch ?wb [] ?pb standard R1_1 = (rb, wb')"
    by (cases "dispatch ?wb [] ?pb standard R1_1")
  have ka: "getAiClient ?wa = Inr \<lparr>apiKey = ''user-key''\<rparr>" by (simp add: getAiClient_def)
  have kb: "getAiClient ?wb = Inr \<lparr>apiKey = ''user-key''\<rparr>" by (simp add: getAiClient_def)
  from dispatch_with_client [OF ka, of "[]" ?pa standard R1_1] da
  have ra: "ra = [settle ''a cafe'' (Inr ''data:image/png;base64,QUJD''),
                  settle ''a beach'' (Inl (new_Error ''No image generated'')),
                  settle ''a gym'' (Inr ''data:image/png;base64,QUJD'')]"
    by (simp add: upt_rec i t)
  from dispatch_with_client [OF kb, of "[]" ?pb standard R1_1] db
  have rb: "rb = [settle ''a cafe'' (Inr ''data:image/png;base64,QUJD''),
                  settle ''a beach'' (Inr ''data:image/png;base64,QUJD'')]"
    by (simp add: upt_rec i)
  have na: "\<forall>r\<in>set ra. \<forall>e m. error r = Some e \<and> message e = Some m \<longrightarrow>
               \<not> str_includes m ''403'' \<and> \<not> str_includes m ''PERMISSION_DENIED''"
    by (auto simp: ra settle_def new_Error_def)
  have nb: "\<forall>r\<in>set rb. \<forall>e m. error r = Some e \<and> message e = Some m \<longrightarrow>
               \<not> str_includes m ''403'' \<and> \<not> str_includes m ''PERMISSION_DENIED''"
    by (auto simp: rb settle_def)
  have sb: "\<forall>r\<in>set rb. success r" by (simp add: rb settle_def)
  from batch_returns_successes_in_order [OF da na]
  have "fst (generateStoryBatch ?wa [] ?pa standard R1_1) =
          Inr [\<lparr>frame_url = ''data:image/png;base64,QUJD'', frame_prompt = ''a cafe''\<rparr>,
               \<lparr>frame_url = ''data:image/png;base64,QUJD'', frame_prompt = ''a gym''\<rparr>]"
    by (simp add: ra settle_def)
  moreover from batch_returns_successes_in_order [OF db nb] sb
  have "fst (generateStoryBatch ?wb [] ?pb standard R1_1) =
          Inr [\<lparr>frame_url = ''data:image/png;base64,QUJD'', frame_prompt = ''a cafe''\<rparr>,
               \<lparr>frame_url = ''data:image/png;base64,QUJD'', frame_prompt = ''a beach''\<rparr>]"
    by (simp add: rb settle_def)
  ultimately show ?thesis by simp
qed

end
